theory Spec2Isabelle
  imports Complex_Main "HOL-Library.Sublist"
begin

section \<open>Python values, errors and the external collaborators\<close>

text \<open>
  The values that travel through keyword arguments and instance attributes. A Python
  \<^verbatim>\<open>dict\<close> with string keys is a map; floats are abstracted to reals.
\<close>

datatype pyval =
    PNone
  | PBool bool
  | PInt int
  | PFloat real
  | PStr string
  | PDict "string \<Rightarrow> pyval option"

type_synonym pydict = "string \<Rightarrow> pyval option"

text \<open>
  Exceptions as values. \<open>ReadError\<close> stands for whatever
  \<^verbatim>\<open>shutil.unpack_archive\<close> raises on a path it cannot unpack.
\<close>

datatype error =
    ModelNotFittedError string
  | ConfigError string
  | DataFormatError
  | ValueError string
  | TypeError
  | FileNotFoundError
  | ReadError
  | ImportError string
  | AttributeError string

text \<open>A validated 2-D array: one row per sample.\<close>

type_synonym matrix = "real list list"

text \<open>
  The fitted estimator object of the backend library. \<open>score_samples\<close> and
  \<open>decision_function\<close> are \<open>None\<close> when the object has no such method
  (\<^verbatim>\<open>hasattr\<close> is false); \<open>bk_params\<close> are the constructor arguments the
  estimator keeps; \<open>bk_type\<close> is the text of \<^verbatim>\<open>type(obj)\<close>.
\<close>

record backend =
  bk_type :: string
  bk_params :: pydict
  score_samples :: "(matrix \<Rightarrow> error + real list) option"
  decision_function :: "(matrix \<Rightarrow> error + real list) option"

text \<open>
  A backend class: calling it with keyword arguments (\<open>new_backend\<close>) and the
  \<^verbatim>\<open>fit(X, y)\<close> method of its instances.
\<close>

record backend_class =
  new_backend :: "pydict \<Rightarrow> error + backend"
  backend_fit :: "backend \<Rightarrow> matrix \<Rightarrow> real list option \<Rightarrow> error + backend"

text \<open>
  The class-level configuration of an adapter: \<^verbatim>\<open>__name__\<close>,
  \<^verbatim>\<open>_backend_cls\<close>, the items of \<^verbatim>\<open>_param_mapping\<close> in
  iteration order, and \<^verbatim>\<open>_invert_score\<close>.
\<close>

record adapter_class =
  cls_name :: string
  backend_cls :: "backend_class option"
  param_mapping :: "(string \<times> string) list"
  invert_score :: bool

text \<open>
  A detector instance: its class, the entries of \<^verbatim>\<open>__dict__\<close> that
  \<^verbatim>\<open>BaseDetector.__init__\<close> and \<^verbatim>\<open>BaseSklearnAdapter.__init__\<close>
  create, and \<open>attrs\<close> for every other instance attribute (those a subclass sets,
  such as \<^verbatim>\<open>n_estimators\<close>). The threshold and the fitted flag have the types
  of their annotations; the contamination and the backend options are kept as the Python
  values the caller passed, since nothing checks them at construction.
\<close>

record detector =
  klass :: adapter_class
  contamination :: pyval
  backend_handle :: "backend option"
  threshold :: "real option"
  is_fitted :: bool
  backend_options :: pyval
  kwargs :: pydict
  attrs :: pydict

text \<open>
  What the library calls outside the repository: numpy's conversion of an input to an
  array (\<^verbatim>\<open>_to_numpy\<close> only dispatches to it), scikit-learn's
  \<^verbatim>\<open>check_array\<close>, and \<^verbatim>\<open>np.quantile\<close>. An array is 1-D,
  2-D, or of another number of dimensions (\<open>ArrN\<close>).
\<close>

datatype ndarray = Arr1 "real list" | Arr2 matrix | ArrN nat

record 'x env =
  to_numpy :: "'x \<Rightarrow> error + ndarray"
  check_array :: "ndarray \<Rightarrow> error + matrix"
  np_quantile :: "real list \<Rightarrow> real \<Rightarrow> error + real"

section \<open>omniad.utils.validation\<close>

text \<open>
  \<^verbatim>\<open>validate_input\<close>: any failure of the conversion becomes a
  \<open>DataFormatError\<close>; a 1-D array is reshaped to one column; of the errors of
  \<^verbatim>\<open>check_array\<close> only a \<open>ValueError\<close> is wrapped. The adapters call it
  without further keyword arguments.
\<close>

definition validate_input :: "'x env \<Rightarrow> 'x \<Rightarrow> error + matrix" where
  "validate_input E X =
     (case to_numpy E X of
        Inl e \<Rightarrow> Inl DataFormatError
      | Inr X_arr \<Rightarrow>
          (let X_arr2 = (case X_arr of Arr1 xs \<Rightarrow> Arr2 (map (\<lambda>x. [x]) xs) | other \<Rightarrow> other)
           in case check_array E X_arr2 of
                Inl (ValueError msg) \<Rightarrow> Inl DataFormatError
              | Inl e \<Rightarrow> Inl e
              | Inr X_ok \<Rightarrow> Inr X_ok))"

section \<open>omniad.core.base and omniad.core.adapters.sklearn\_adapter\<close>

subsection \<open>Construction\<close>

text \<open>
  \<^verbatim>\<open>BaseSklearnAdapter.__init__(contamination, **kwargs)\<close>, which runs
  \<^verbatim>\<open>BaseDetector.__init__\<close> first. \<open>own\<close> holds the attributes a
  subclass has set before calling it.
\<close>

definition BaseSklearnAdapter_init ::
  "adapter_class \<Rightarrow> pydict \<Rightarrow> pyval \<Rightarrow> pydict \<Rightarrow> detector" where
  "BaseSklearnAdapter_init cls own contam kw =
     \<lparr> klass = cls,
       contamination = contam,
       backend_handle = None,
       threshold = None,
       is_fitted = False,
       backend_options = (case kw ''backend_options'' of None \<Rightarrow> PDict Map.empty | Some v \<Rightarrow> v),
       kwargs = kw,
       attrs = own \<rparr>"

subsection \<open>The backend\_model property\<close>

definition backend_model :: "detector \<Rightarrow> error + backend" where
  "backend_model d =
     (case backend_handle d of
        None \<Rightarrow> Inl (ModelNotFittedError ''The backend model is not initialized or fitted.'')
      | Some b \<Rightarrow> Inr b)"

subsection \<open>BaseSklearnAdapter.\_fit\_backend\<close>

text \<open>
  \<^verbatim>\<open>hasattr(self, name)\<close> and \<^verbatim>\<open>getattr(self, name)\<close> on the data
  attributes of the instance (\<open>None\<close>: no such attribute). The backend handle, methods
  and class attributes are not values of \<open>pyval\<close> and are not looked up here.
\<close>

definition getattr :: "detector \<Rightarrow> string \<Rightarrow> pyval option" where
  "getattr d name =
     (if name = ''contamination'' then Some (contamination d)
      else if name = ''threshold_'' then
        Some (case threshold d of None \<Rightarrow> PNone | Some t \<Rightarrow> PFloat t)
      else if name = ''_is_fitted'' then Some (PBool (is_fitted d))
      else if name = ''backend_options'' then Some (backend_options d)
      else if name = ''kwargs'' then Some (PDict (kwargs d))
      else attrs d name)"

text \<open>The loop over \<^verbatim>\<open>_param_mapping.items()\<close>.\<close>

fun apply_mapping :: "detector \<Rightarrow> (string \<times> string) list \<Rightarrow> pydict \<Rightarrow> pydict" where
  "apply_mapping d [] init_params = init_params"
| "apply_mapping d ((local_name, backend_name) # rest) init_params =
     apply_mapping d rest
       (case getattr d local_name of
          Some v \<Rightarrow> init_params(backend_name \<mapsto> v)
        | None \<Rightarrow> init_params)"

text \<open>
  \<^verbatim>\<open>dict.update(other)\<close>: a dict is merged in; the empty string is an empty
  iterable; a non-empty string is an iterable of 1-character items (ValueError); the
  other values are not iterable (TypeError).
\<close>

fun dict_update :: "pydict \<Rightarrow> pyval \<Rightarrow> error + pydict" where
  "dict_update p (PDict m) = Inr (p ++ m)"
| "dict_update p (PStr []) = Inr p"
| "dict_update p (PStr (c # cs)) =
     Inl (ValueError ''dictionary update sequence element #0 has length 1; 2 is required'')"
| "dict_update p v = Inl TypeError"

text \<open>Step 2 of \<^verbatim>\<open>_fit_backend\<close>: the constructor arguments.\<close>

definition init_params :: "detector \<Rightarrow> error + pydict" where
  "init_params d =
     (let p0 = kwargs d;
          p1 = p0(''backend_options'' := None);
          p2 = apply_mapping d (param_mapping (klass d)) p1
      in dict_update p2 (backend_options d))"

definition fit_backend ::
  "'x env \<Rightarrow> detector \<Rightarrow> 'x \<Rightarrow> real list option \<Rightarrow> detector \<times> (error + unit)" where
  "fit_backend E d X y =
     (case validate_input E X of
        Inl e \<Rightarrow> (d, Inl e)
      | Inr X_valid \<Rightarrow>
          (case backend_cls (klass d) of
             None \<Rightarrow>
               (d, Inl (ConfigError
                  (''Adapter '' @ cls_name (klass d) @ '' must define '_backend_cls'.'')))
           | Some bc \<Rightarrow>
               (case init_params d of
                  Inl e \<Rightarrow> (d, Inl e)
                | Inr ip \<Rightarrow>
                    (case new_backend bc ip of
                       Inl e \<Rightarrow> (d, Inl e)
                     | Inr b \<Rightarrow>
                         (case backend_fit bc b X_valid y of
                            Inl e \<Rightarrow> (d\<lparr>backend_handle := Some b\<rparr>, Inl e)
                          | Inr b' \<Rightarrow> (d\<lparr>backend_handle := Some b'\<rparr>, Inr ()))))))"

subsection \<open>BaseSklearnAdapter.predict\_score\<close>

text \<open>
  \<^verbatim>\<open>hasattr(self.backend_model, ...)\<close> reads the property first, so a missing
  handle raises \<open>ModelNotFittedError\<close> (which \<^verbatim>\<open>hasattr\<close> does not catch).
\<close>

definition predict_score :: "'x env \<Rightarrow> detector \<Rightarrow> 'x \<Rightarrow> error + real list" where
  "predict_score E d X =
     (case validate_input E X of
        Inl e \<Rightarrow> Inl e
      | Inr X_valid \<Rightarrow>
          (case backend_model d of
             Inl e \<Rightarrow> Inl e
           | Inr b \<Rightarrow>
               (case (case score_samples b of
                        Some f \<Rightarrow> f X_valid
                      | None \<Rightarrow>
                          (case decision_function b of
                             Some g \<Rightarrow> g X_valid
                           | None \<Rightarrow>
                               Inl (ConfigError
                                 (''Backend '' @ bk_type b @
                                  '' has neither 'score_samples' nor 'decision_function'.'')))) of
                  Inl e \<Rightarrow> Inl e
                | Inr scores \<Rightarrow>
                    Inr (if invert_score (klass d) then map uminus scores else scores))))"

subsection \<open>BaseDetector.fit\<close>

text \<open>\<^verbatim>\<open>_set_seed\<close>: the default hook does nothing.\<close>

definition set_seed :: "detector \<Rightarrow> detector" where
  "set_seed d = d"

text \<open>\<^verbatim>\<open>1 - self.contamination\<close>: defined on numbers (a bool is 0 or 1).\<close>

fun one_minus :: "pyval \<Rightarrow> error + real" where
  "one_minus (PFloat c) = Inr (1 - c)"
| "one_minus (PInt i) = Inr (1 - real_of_int i)"
| "one_minus (PBool b) = Inr (1 - (if b then 1 else 0))"
| "one_minus v = Inl TypeError"

text \<open>What a method that ends in \<^verbatim>\<open>return self\<close> returns: its receiver.\<close>

datatype receiver = Self

definition fit ::
  "'x env \<Rightarrow> detector \<Rightarrow> 'x \<Rightarrow> real list option \<Rightarrow> detector \<times> (error + receiver)" where
  "fit E d X y =
     (case fit_backend E (set_seed d) X y of
        (d1, Inl e) \<Rightarrow> (d1, Inl e)
      | (d1, Inr u) \<Rightarrow>
          (case predict_score E d1 X of
             Inl e \<Rightarrow> (d1, Inl e)
           | Inr train_scores \<Rightarrow>
               (case one_minus (contamination d1) of
                  Inl e \<Rightarrow> (d1, Inl e)
                | Inr q \<Rightarrow>
                    (case np_quantile E train_scores q of
                       Inl e \<Rightarrow> (d1, Inl e)
                     | Inr t \<Rightarrow>
                         (d1\<lparr>threshold := Some t, is_fitted := True\<rparr>, Inr Self)))))"

subsection \<open>BaseDetector.predict\<close>

definition predict :: "'x env \<Rightarrow> detector \<Rightarrow> 'x \<Rightarrow> real option \<Rightarrow> error + int list" where
  "predict E d X thr =
     (if \<not> is_fitted d then Inl (ModelNotFittedError ''Model is not fitted. Call fit() first.'')
      else
        (case predict_score E d X of
           Inl e \<Rightarrow> Inl e
         | Inr scores \<Rightarrow>
             (case (case thr of Some t \<Rightarrow> Some t | None \<Rightarrow> threshold d) of
                None \<Rightarrow>
                  Inl (ValueError ''Threshold not fitted. Run fit() or pass explicit threshold.'')
              | Some current_threshold \<Rightarrow>
                  Inr (map (\<lambda>s. if s > current_threshold then 1 else 0) scores))))"

subsection \<open>Persistence: the archive and the file system\<close>

text \<open>
  \<open>attributes\<close> is the content of \<^verbatim>\<open>attributes.pkl\<close>: the copy of
  \<^verbatim>\<open>__dict__\<close> without \<^verbatim>\<open>_backend_model\<close>. \<open>metadata\<close> is
  \<^verbatim>\<open>metadata.json\<close>. An archive holds each of its three parts or lacks it;
  \<open>model_joblib\<close> is the file \<^verbatim>\<open>backend/model.joblib\<close>. An attributes
  part holds the entries that \<^verbatim>\<open>save\<close> writes. Pickling with joblib is taken
  to restore what was dumped. The file system maps a path to the zip archive stored there.
\<close>

record attributes =
  a_contamination :: pyval
  a_threshold :: "real option"
  a_is_fitted :: bool
  a_backend_options :: pyval
  a_kwargs :: pydict
  a_attrs :: pydict

record metadata =
  m_class_name :: string
  m_contamination :: pyval
  m_threshold :: "real option"
  m_version :: string

record archive =
  metadata_json :: "metadata option"
  attributes_pkl :: "attributes option"
  model_joblib :: "backend option"

type_synonym filesystem = "string \<Rightarrow> archive option"

definition version :: string where
  "version = ''0.1.0''"

text \<open>
  \<^verbatim>\<open>os.path.splitext\<close> (posix): the extension starts at the last dot of the
  last path component, unless only dots precede it there. \<open>rfind\<close> is
  \<^verbatim>\<open>str.rfind\<close> (\<open>None\<close> for -1); \<open>has_non_dot\<close> is the loop that
  skips leading dots.
\<close>

fun rfind :: "string \<Rightarrow> char \<Rightarrow> nat option" where
  "rfind [] c = None"
| "rfind (x # xs) c =
     (case rfind xs c of
        Some i \<Rightarrow> Some (Suc i)
      | None \<Rightarrow> if x = c then Some 0 else None)"

function has_non_dot :: "string \<Rightarrow> nat \<Rightarrow> nat \<Rightarrow> bool" where
  "has_non_dot p filenameIndex dotIndex =
     (if filenameIndex < dotIndex then
        (if p ! filenameIndex \<noteq> CHR ''.'' then True
         else has_non_dot p (Suc filenameIndex) dotIndex)
      else False)"
  by pat_completeness auto
termination
  by (relation "measure (\<lambda>(p, filenameIndex, dotIndex). dotIndex - filenameIndex)") auto

declare has_non_dot.simps [simp del]

definition splitext :: "string \<Rightarrow> string \<times> string" where
  "splitext p =
     (let sepIndex = rfind p CHR ''/'';
          dotIndex = rfind p CHR ''.''
      in case dotIndex of
           None \<Rightarrow> (p, [])
         | Some di \<Rightarrow>
             (let filenameIndex = (case sepIndex of None \<Rightarrow> 0 | Some si \<Rightarrow> Suc si)
              in if filenameIndex \<le> di \<and> has_non_dot p filenameIndex di
                 then (take di p, drop di p)
                 else (p, [])))"

definition endswith :: "string \<Rightarrow> string \<Rightarrow> bool" where
  "endswith s suf = (length suf \<le> length s \<and> drop (length s - length suf) s = suf)"

text \<open>
  \<^verbatim>\<open>shutil.unpack_archive(filepath, tmp_dir)\<close>: the format is read off the file
  name; the files of this file system are zip archives, so only a name ending in
  \<^verbatim>\<open>.zip\<close> that exists unpacks.
\<close>

definition unpack_archive :: "filesystem \<Rightarrow> string \<Rightarrow> error + archive" where
  "unpack_archive fs filepath =
     (if endswith filepath ''.zip'' then
        (case fs filepath of None \<Rightarrow> Inl ReadError | Some ar \<Rightarrow> Inr ar)
      else Inl ReadError)"

text \<open>\<^verbatim>\<open>_save_backend\<close>: what is dumped to \<^verbatim>\<open>model.joblib\<close>.\<close>

definition save_backend :: "detector \<Rightarrow> error + backend" where
  "save_backend d = backend_model d"

text \<open>\<^verbatim>\<open>_load_backend\<close>, given the content of \<^verbatim>\<open>model.joblib\<close> if the file exists.\<close>

definition load_backend :: "detector \<Rightarrow> backend option \<Rightarrow> detector \<times> (error + unit)" where
  "load_backend d model_file =
     (case model_file of
        None \<Rightarrow> (d, Inl FileNotFoundError)
      | Some b \<Rightarrow> (d\<lparr>backend_handle := Some b\<rparr>, Inr ()))"

text \<open>\<^verbatim>\<open>state = self.__dict__.copy(); state.pop("_backend_model", None)\<close>\<close>

definition state_of :: "detector \<Rightarrow> attributes" where
  "state_of d =
     \<lparr> a_contamination = contamination d,
       a_threshold = threshold d,
       a_is_fitted = is_fitted d,
       a_backend_options = backend_options d,
       a_kwargs = kwargs d,
       a_attrs = attrs d \<rparr>"

text \<open>\<^verbatim>\<open>self.__dict__.update(attributes)\<close>\<close>

definition update_dict :: "detector \<Rightarrow> attributes \<Rightarrow> detector" where
  "update_dict d a =
     d\<lparr> contamination := a_contamination a,
        threshold := a_threshold a,
        is_fitted := a_is_fitted a,
        backend_options := a_backend_options a,
        kwargs := a_kwargs a,
        attrs := attrs d ++ a_attrs a \<rparr>"

text \<open>
  \<^verbatim>\<open>save\<close>: the archive is built in a temporary directory and packed to
  \<^verbatim>\<open>base_name + ".zip"\<close> only when every step has succeeded.
\<close>

definition save :: "filesystem \<Rightarrow> detector \<Rightarrow> string \<Rightarrow> filesystem \<times> (error + unit)" where
  "save fs d filepath =
     (let base_name = fst (splitext filepath);
          meta = \<lparr> m_class_name = cls_name (klass d),
                   m_contamination = contamination d,
                   m_threshold = threshold d,
                   m_version = version \<rparr>
      in case save_backend d of
           Inl e \<Rightarrow> (fs, Inl e)
         | Inr model \<Rightarrow>
             (fs(base_name @ ''.zip'' \<mapsto>
                   \<lparr> metadata_json = Some meta,
                     attributes_pkl = Some (state_of d),
                     model_joblib = Some model \<rparr>),
              Inr ()))"

text \<open>
  \<^verbatim>\<open>load\<close>. \<open>probe_path\<close> is its first statement: a path that does not
  exist is tried with \<^verbatim>\<open>.zip\<close> appended. A missing
  \<^verbatim>\<open>attributes.pkl\<close> makes \<^verbatim>\<open>joblib.load\<close> raise
  \<open>FileNotFoundError\<close>.
\<close>

definition probe_path :: "filesystem \<Rightarrow> string \<Rightarrow> string" where
  "probe_path fs filepath =
     (if fs filepath = None \<and> fs (filepath @ ''.zip'') \<noteq> None
      then filepath @ ''.zip'' else filepath)"

definition load :: "filesystem \<Rightarrow> detector \<Rightarrow> string \<Rightarrow> detector \<times> (error + receiver)" where
  "load fs d filepath =
     (let filepath2 = probe_path fs filepath
      in case unpack_archive fs filepath2 of
           Inl e \<Rightarrow> (d, Inl e)
         | Inr ar \<Rightarrow>
             (case attributes_pkl ar of
                None \<Rightarrow> (d, Inl FileNotFoundError)
              | Some attributes \<Rightarrow>
                  (case load_backend (update_dict d attributes) (model_joblib ar) of
                     (d2, Inl e) \<Rightarrow> (d2, Inl e)
                   | (d2, Inr u) \<Rightarrow> (d2\<lparr>is_fitted := True\<rparr>, Inr Self))))"

section \<open>omniad.registry and omniad.get\_detector\<close>

text \<open>The items of \<^verbatim>\<open>_REGISTRY\<close>, in order.\<close>

definition REGISTRY :: "(string \<times> string) list" where
  "REGISTRY = [(''IsolationForest'', ''omniad.algos.tabular.iforest'')]"

text \<open>
  The text Python prints for a list of strings: each name between single quotes (names
  without quotes, backslashes or control characters), separated by a comma and a space,
  between brackets.
\<close>

definition sq :: "string \<Rightarrow> string" where
  "sq s = CHR 0x27 # s @ [CHR 0x27]"

fun join :: "string \<Rightarrow> string list \<Rightarrow> string" where
  "join sep [] = []"
| "join sep [x] = x"
| "join sep (x # y # ys) = x @ sep @ join sep (y # ys)"

definition repr_list :: "string list \<Rightarrow> string" where
  "repr_list names = ''['' @ join '', '' (map sq names) @ '']''"

text \<open>
  A loaded module maps an attribute name to the class found there, a class being what
  calling it with keyword arguments does. \<open>import_module\<close> is
  \<^verbatim>\<open>importlib.import_module\<close> in the current installation.
\<close>

type_synonym pymodule = "string \<Rightarrow> (pydict \<Rightarrow> error + detector) option"

definition get_detector ::
  "(string \<times> string) list \<Rightarrow> (string \<Rightarrow> error + pymodule) \<Rightarrow> string \<Rightarrow> pydict
     \<Rightarrow> error + detector" where
  "get_detector registry import_module name kw =
     (case map_of registry name of
        None \<Rightarrow>
          Inl (ConfigError
            (''Unknown algorithm: '' @ sq name @ ''. Available algorithms: '' @
             repr_list (map fst registry)))
      | Some module_path \<Rightarrow>
          (case import_module module_path of
             Inl (ImportError e) \<Rightarrow>
               Inl (ImportError
                 (''Failed to import module '' @ sq module_path @ '' for algorithm '' @
                  sq name @ ''. Ensure all dependencies are installed. Error: '' @ e))
           | Inl e \<Rightarrow> Inl e
           | Inr imported \<Rightarrow>
               (let class_name = name @ ''Adapter''
                in case imported class_name of
                     None \<Rightarrow>
                       Inl (AttributeError
                         (''Module '' @ sq module_path @ '' does not have class '' @
                          sq class_name @ ''. Check naming conventions.''))
                   | Some model_class \<Rightarrow> model_class kw)))"

section \<open>omniad.algos.tabular.iforest\<close>

text \<open>
  \<open>sk\<close> is \<^verbatim>\<open>sklearn.ensemble.IsolationForest\<close>. The constructor binds its
  four named parameters (with their defaults) and passes the remaining keyword arguments
  on; a keyword argument named \<^verbatim>\<open>self\<close> collides with the receiver.
\<close>

definition IsolationForestAdapter :: "backend_class \<Rightarrow> adapter_class" where
  "IsolationForestAdapter sk =
     \<lparr> cls_name = ''IsolationForestAdapter'', backend_cls = Some sk,
       param_mapping = [], invert_score = True \<rparr>"

definition IsolationForestAdapter_init :: "backend_class \<Rightarrow> pydict \<Rightarrow> error + detector" where
  "IsolationForestAdapter_init sk kw =
     (if kw ''self'' \<noteq> None then Inl TypeError
      else
        (let n_estimators = (case kw ''n_estimators'' of None \<Rightarrow> PInt 100 | Some v \<Rightarrow> v);
             contam = (case kw ''contamination'' of None \<Rightarrow> PFloat (1 / 10) | Some v \<Rightarrow> v);
             n_jobs = (case kw ''n_jobs'' of None \<Rightarrow> PInt (- 1) | Some v \<Rightarrow> v);
             random_state = (case kw ''random_state'' of None \<Rightarrow> PNone | Some v \<Rightarrow> v);
             rest = kw(''n_estimators'' := None, ''contamination'' := None,
                       ''n_jobs'' := None, ''random_state'' := None)
         in Inr (BaseSklearnAdapter_init (IsolationForestAdapter sk)
                   [''n_estimators'' \<mapsto> n_estimators, ''n_jobs'' \<mapsto> n_jobs,
                    ''random_state'' \<mapsto> random_state]
                   contam
                   (rest(''n_estimators'' \<mapsto> n_estimators, ''n_jobs'' \<mapsto> n_jobs,
                         ''random_state'' \<mapsto> random_state)))))"

definition iforest_module :: "backend_class \<Rightarrow> pymodule" where
  "iforest_module sk = [''IsolationForestAdapter'' \<mapsto> IsolationForestAdapter_init sk]"

section \<open>Reachable detector states\<close>

text \<open>
  The states a detector constructed as \<open>d0\<close> can be in between public operations that
  do not load an archive: \<^verbatim>\<open>fit\<close> leaves a new state whether it returns or
  raises; \<^verbatim>\<open>predict_score\<close>, \<^verbatim>\<open>predict\<close> and \<^verbatim>\<open>save\<close> leave the
  state as it is.
\<close>

inductive reachable :: "'x env \<Rightarrow> detector \<Rightarrow> detector \<Rightarrow> bool" for E d0 where
  constructed: "reachable E d0 d0"
| after_fit: "reachable E d0 d \<Longrightarrow> reachable E d0 (fst (fit E d X y))"

section \<open>Example instances\<close>

text \<open>
  A small environment: inputs are lists of rows; \<^verbatim>\<open>check_array\<close> rejects an
  array without samples; the quantile interpolates linearly between the order statistics
  and rejects a level outside \<open>[0, 1]\<close> and an empty list.
\<close>

definition linear_quantile :: "real list \<Rightarrow> real \<Rightarrow> error + real" where
  "linear_quantile xs q =
     (if q < 0 \<or> 1 < q then Inl (ValueError ''Quantiles must be in the range [0, 1]'')
      else if xs = [] then Inl (ValueError ''no data'')
      else
        (let s = sort xs;
             h = real (length s - 1) * q;
             j = nat \<lfloor>h\<rfloor>;
             g = h - real j
         in if j + 1 < length s then Inr (s ! j + g * (s ! (j + 1) - s ! j))
            else Inr (s ! j)))"

definition toy_env :: "matrix env" where
  "toy_env =
     \<lparr> to_numpy = (\<lambda>X. Inr (Arr2 X)),
       check_array = (\<lambda>a. case a of
            Arr1 xs \<Rightarrow> Inl (ValueError ''Expected 2D array, got 1D array instead'')
          | Arr2 m \<Rightarrow> if m = [] then Inl (ValueError ''Found array with 0 sample(s)'')
                      else Inr m
          | ArrN n \<Rightarrow> Inl (ValueError ''Found array with another dimension'')),
       np_quantile = linear_quantile \<rparr>"

text \<open>
  A backend class in the shape of a scikit-learn estimator: the constructor keeps its
  arguments; \<^verbatim>\<open>fit\<close> records the number of features; the fitted estimator
  scores a sample by the negated sum of its features and raises a \<open>ValueError\<close> on
  an input with another number of features; \<^verbatim>\<open>fit\<close> rejects
  \<^verbatim>\<open>n_estimators = 0\<close>.
\<close>

definition toy_scorer :: "nat \<Rightarrow> matrix \<Rightarrow> error + real list" where
  "toy_scorer n m =
     (if list_all (\<lambda>row. length row = n) m then Inr (map (\<lambda>row. - sum_list row) m)
      else Inl (ValueError ''X has a different number of features than the fitted estimator''))"

definition toy_backend_class :: backend_class where
  "toy_backend_class =
     \<lparr> new_backend = (\<lambda>kw. Inr \<lparr> bk_type = ''<class Toy>'', bk_params = kw,
                                  score_samples = None, decision_function = None \<rparr>),
       backend_fit = (\<lambda>b m y.
          if bk_params b ''n_estimators'' = Some (PInt 0)
          then Inl (ValueError ''n_estimators must be positive'')
          else Inr (b\<lparr>decision_function := Some (toy_scorer (length (hd m)))\<rparr>)) \<rparr>"

definition ToyAdapter :: adapter_class where
  "ToyAdapter =
     \<lparr> cls_name = ''ToyAdapter'', backend_cls = Some toy_backend_class,
       param_mapping = [], invert_score = True \<rparr>"

definition toy_fresh :: detector where
  "toy_fresh = BaseSklearnAdapter_init ToyAdapter Map.empty (PFloat (1 / 2)) Map.empty"

definition toy_fitted :: detector where
  "toy_fitted = fst (fit toy_env toy_fresh [[1, 2], [3, 5]] None)"

text \<open>The estimator that \<open>toy_fitted\<close> holds.\<close>

definition toy_model :: backend where
  "toy_model =
     \<lparr> bk_type = ''<class Toy>'', bk_params = Map.empty,
       score_samples = None, decision_function = Some (toy_scorer 2) \<rparr>"

text \<open>
  An adapter whose attribute \<^verbatim>\<open>n_trees\<close> is mapped to the backend's
  \<^verbatim>\<open>n_estimators\<close>, and an instance with \<^verbatim>\<open>n_trees = 10\<close> that
  was given the keyword argument \<^verbatim>\<open>n_estimators = 50\<close>.
\<close>

definition TreesAdapter :: adapter_class where
  "TreesAdapter =
     \<lparr> cls_name = ''TreesAdapter'', backend_cls = Some toy_backend_class,
       param_mapping = [(''n_trees'', ''n_estimators'')], invert_score = True \<rparr>"

definition toy_trees :: detector where
  "toy_trees =
     BaseSklearnAdapter_init TreesAdapter [''n_trees'' \<mapsto> PInt 10] (PFloat (1 / 10))
       [''n_estimators'' \<mapsto> PInt 50]"

text \<open>
  A detector constructed with contamination 2: its \<^verbatim>\<open>fit\<close> raises in the
  quantile, after the backend was fitted. It is saved all the same, and the archive is
  loaded into a fresh detector.
\<close>

definition toy_two :: detector where
  "toy_two = BaseSklearnAdapter_init ToyAdapter Map.empty (PFloat 2) Map.empty"

definition toy_saved_fs :: filesystem where
  "toy_saved_fs =
     fst (save Map.empty (fst (fit toy_env toy_two [[1, 2], [3, 5]] None)) ''model.zip'')"

definition toy_reloaded :: detector where
  "toy_reloaded = fst (load toy_saved_fs toy_fresh ''model.zip'')"

text \<open>
  An instance constructed with \<^verbatim>\<open>n_estimators = 0\<close>, an archive whose
  \<^verbatim>\<open>backend/model.joblib\<close> is missing, and an installation in which the
  registered module can be imported.
\<close>

definition toy_zero :: detector where
  "toy_zero =
     BaseSklearnAdapter_init ToyAdapter Map.empty (PFloat (1 / 2)) [''n_estimators'' \<mapsto> PInt 0]"

definition truncated_fs :: filesystem where
  "truncated_fs =
     [''m.zip'' \<mapsto> \<lparr> metadata_json = None, attributes_pkl = Some (state_of toy_fitted),
                          model_joblib = None \<rparr>]"

definition toy_import :: "string \<Rightarrow> error + pymodule" where
  "toy_import module_path =
     (if module_path = ''omniad.algos.tabular.iforest''
      then Inr (iforest_module toy_backend_class)
      else Inl (ImportError (''No module named '' @ sq module_path)))"

text \<open>
  A backend class whose fitted estimator returns a single score for the whole input, the
  negated sum of all features, its adapter, and a detector of it fitted on two samples.
\<close>

definition flat_scorer :: "matrix \<Rightarrow> error + real list" where
  "flat_scorer m = Inr [- sum_list (concat m)]"

definition flat_backend_class :: backend_class where
  "flat_backend_class =
     \<lparr> new_backend = (\<lambda>kw. Inr \<lparr> bk_type = ''<class Flat>'', bk_params = kw,
                                  score_samples = None, decision_function = None \<rparr>),
       backend_fit = (\<lambda>b m y.
          Inr (b\<lparr>decision_function := Some flat_scorer\<rparr>)) \<rparr>"

definition FlatAdapter :: adapter_class where
  "FlatAdapter =
     \<lparr> cls_name = ''FlatAdapter'', backend_cls = Some flat_backend_class,
       param_mapping = [], invert_score = True \<rparr>"

definition flat_fresh :: detector where
  "flat_fresh = BaseSklearnAdapter_init FlatAdapter Map.empty (PFloat (1 / 2)) Map.empty"

definition flat_fitted :: detector where
  "flat_fitted = fst (fit toy_env flat_fresh [[1, 2], [3, 5]] None)"


section \<open>Properties\<close>

subsection \<open>Facts about the example instances\<close>

lemma toy_validate:
  "validate_input toy_env (r # rs) = Inr (r # rs)"
  "validate_input toy_env [] = Inl DataFormatError"
  by (simp_all add: validate_input_def toy_env_def)

lemma toy_np_quantile: "np_quantile toy_env = linear_quantile"
  by (simp add: toy_env_def)

lemma toy_fresh_fields:
  "klass toy_fresh = ToyAdapter" "contamination toy_fresh = PFloat (1 / 2)"
  "backend_handle toy_fresh = None" "threshold toy_fresh = None" "is_fitted toy_fresh = False"
  "backend_options toy_fresh = PDict Map.empty" "kwargs toy_fresh = Map.empty"
  "attrs toy_fresh = Map.empty"
  by (simp_all add: toy_fresh_def BaseSklearnAdapter_init_def)

lemma toy_fit_backend:
  "fit_backend toy_env toy_fresh [[1, 2], [3, 5]] None =
     (toy_fresh\<lparr>backend_handle := Some toy_model\<rparr>, Inr ())"
  by (simp add: fit_backend_def toy_validate toy_fresh_fields ToyAdapter_def
      toy_backend_class_def init_params_def toy_model_def numeral_2_eq_2)

lemma toy_scores: "toy_scorer 2 [[1, 2], [3, 5]] = Inr [- 3, - 8]"
  by (simp add: toy_scorer_def)

lemma toy_quantile: "linear_quantile [3, 8] (1 / 2) = Inr (11 / 2)"
  by (simp add: linear_quantile_def)

lemma toy_predict_score:
  "klass d = ToyAdapter \<Longrightarrow> backend_handle d = Some toy_model \<Longrightarrow>
     predict_score toy_env d [[1, 2], [3, 5]] = Inr [3, 8]"
  by (simp add: predict_score_def backend_model_def toy_validate toy_scores ToyAdapter_def
      toy_model_def)

lemma toy_fit:
  "fit toy_env toy_fresh [[1, 2], [3, 5]] None =
     (toy_fresh\<lparr>backend_handle := Some toy_model, threshold := Some (11 / 2),
        is_fitted := True\<rparr>, Inr Self)"
  by (simp add: fit_def set_seed_def toy_fit_backend toy_predict_score toy_fresh_fields
      toy_np_quantile toy_quantile)

lemma toy_fitted_fields:
  "klass toy_fitted = ToyAdapter" "contamination toy_fitted = PFloat (1 / 2)"
  "backend_handle toy_fitted = Some toy_model" "threshold toy_fitted = Some (11 / 2)"
  "is_fitted toy_fitted = True"
  by (simp_all add: toy_fitted_def toy_fit toy_fresh_fields)

lemma splitext_model_zip: "splitext ''model.zip'' = (''model'', ''.zip'')"
  by (simp add: splitext_def has_non_dot.simps)


lemma splitext_model: "splitext ''model'' = (''model'', [])"
  by (simp add: splitext_def)

lemma endswith_m_zip: "endswith ''m.zip'' ''.zip''"
  by (simp add: endswith_def)



lemma toy_zero_fit:
  "fit toy_env toy_zero [[1, 2], [3, 5]] None =
     (toy_zero\<lparr>backend_handle := Some \<lparr> bk_type = ''<class Toy>'',
          bk_params = [''n_estimators'' \<mapsto> PInt 0],
          score_samples = None, decision_function = None \<rparr>\<rparr>,
      Inl (ValueError ''n_estimators must be positive''))"
  by (simp add: fit_def set_seed_def fit_backend_def toy_validate toy_zero_def
      BaseSklearnAdapter_init_def ToyAdapter_def toy_backend_class_def init_params_def)

lemma toy_trees_init_params: "init_params toy_trees = Inr [''n_estimators'' \<mapsto> PInt 10]"
  by (simp add: init_params_def toy_trees_def TreesAdapter_def BaseSklearnAdapter_init_def
      getattr_def fun_eq_iff)

lemma toy_two_fit:
  "fit toy_env toy_two [[1, 2], [3, 5]] None =
     (toy_two\<lparr>backend_handle := Some toy_model\<rparr>,
      Inl (ValueError ''Quantiles must be in the range [0, 1]''))"
proof -
  have f: "klass toy_two = ToyAdapter" "contamination toy_two = PFloat 2"
    "backend_options toy_two = PDict Map.empty" "kwargs toy_two = Map.empty"
    by (simp_all add: toy_two_def BaseSklearnAdapter_init_def)
  have fb: "fit_backend toy_env toy_two [[1, 2], [3, 5]] None =
      (toy_two\<lparr>backend_handle := Some toy_model\<rparr>, Inr ())"
    by (simp add: fit_backend_def toy_validate f ToyAdapter_def toy_backend_class_def
        init_params_def toy_model_def numeral_2_eq_2)
  have q: "linear_quantile [3, 8] (- 1) = Inl (ValueError ''Quantiles must be in the range [0, 1]'')"
    by (simp add: linear_quantile_def)
  show ?thesis
    by (simp add: fit_def set_seed_def fb toy_predict_score f toy_np_quantile q)
qed

lemma toy_saved_fs_eq:
  "toy_saved_fs =
     [''model.zip'' \<mapsto>
        \<lparr> metadata_json = Some \<lparr> m_class_name = ''ToyAdapter'', m_contamination = PFloat 2,
              m_threshold = None, m_version = ''0.1.0'' \<rparr>,
          attributes_pkl = Some (state_of (toy_two\<lparr>backend_handle := Some toy_model\<rparr>)),
          model_joblib = Some toy_model \<rparr>]"
proof -
  have k: "cls_name (klass toy_two) = ''ToyAdapter''" "contamination toy_two = PFloat 2"
    "threshold toy_two = None"
    by (simp_all add: toy_two_def BaseSklearnAdapter_init_def ToyAdapter_def)
  show ?thesis
    by (simp add: toy_saved_fs_def toy_two_fit save_def save_backend_def backend_model_def
        splitext_model_zip version_def k)
qed

lemma toy_reload:
  "load toy_saved_fs toy_fresh ''model.zip'' =
     ((update_dict toy_fresh (state_of (toy_two\<lparr>backend_handle := Some toy_model\<rparr>)))
        \<lparr>backend_handle := Some toy_model, is_fitted := True\<rparr>, Inr Self)"
  by (simp add: toy_saved_fs_eq load_def probe_path_def unpack_archive_def endswith_def
      load_backend_def)

lemma toy_reloaded_fields:
  "klass toy_reloaded = ToyAdapter" "contamination toy_reloaded = PFloat 2"
  "backend_handle toy_reloaded = Some toy_model" "threshold toy_reloaded = None"
  "is_fitted toy_reloaded = True"
  by (simp_all add: toy_reloaded_def toy_reload update_dict_def state_of_def toy_fresh_fields
      toy_two_def BaseSklearnAdapter_init_def)

lemma flat_fit:
  "fit toy_env flat_fresh [[1, 2], [3, 5]] None =
     (flat_fresh\<lparr>backend_handle := Some \<lparr> bk_type = ''<class Flat>'', bk_params = Map.empty,
          score_samples = None, decision_function = Some flat_scorer \<rparr>,
        threshold := Some 11, is_fitted := True\<rparr>, Inr Self)"
proof -
  let ?b = "\<lparr> bk_type = ''<class Flat>'', bk_params = Map.empty, score_samples = None,
              decision_function = Some flat_scorer \<rparr>"
  have f: "klass flat_fresh = FlatAdapter" "contamination flat_fresh = PFloat (1 / 2)"
    "backend_options flat_fresh = PDict Map.empty" "kwargs flat_fresh = Map.empty"
    by (simp_all add: flat_fresh_def BaseSklearnAdapter_init_def)
  have fb: "fit_backend toy_env flat_fresh [[1, 2], [3, 5]] None =
      (flat_fresh\<lparr>backend_handle := Some ?b\<rparr>, Inr ())"
    by (simp add: fit_backend_def toy_validate f FlatAdapter_def flat_backend_class_def
        init_params_def)
  have ps: "predict_score toy_env (flat_fresh\<lparr>backend_handle := Some ?b\<rparr>) [[1, 2], [3, 5]] =
      Inr [11]"
    by (simp add: predict_score_def backend_model_def toy_validate f FlatAdapter_def
        flat_scorer_def)
  have q: "linear_quantile [11] (1 / 2) = Inr 11"
    by (simp add: linear_quantile_def)
  show ?thesis
    by (simp add: fit_def set_seed_def fb ps f toy_np_quantile q)
qed

lemma flat_fitted_fields:
  "klass flat_fitted = FlatAdapter" "threshold flat_fitted = Some 11" "is_fitted flat_fitted = True"
  "backend_handle flat_fitted =
     Some \<lparr> bk_type = ''<class Flat>'', bk_params = Map.empty, score_samples = None,
            decision_function = Some flat_scorer \<rparr>"
proof -
  have k: "klass flat_fresh = FlatAdapter"
    by (simp add: flat_fresh_def BaseSklearnAdapter_init_def)
  show "klass flat_fitted = FlatAdapter" "threshold flat_fitted = Some 11"
    "is_fitted flat_fitted = True"
    "backend_handle flat_fitted =
       Some \<lparr> bk_type = ''<class Flat>'', bk_params = Map.empty, score_samples = None,
              decision_function = Some flat_scorer \<rparr>"
    by (simp_all add: flat_fitted_def flat_fit k)
qed

subsection \<open>What the operations keep and change\<close>

lemma fit_backend_keeps:
  "fit_backend E d X y = (d1, r) \<Longrightarrow>
     klass d1 = klass d \<and> contamination d1 = contamination d \<and> threshold d1 = threshold d \<and>
     is_fitted d1 = is_fitted d \<and> backend_options d1 = backend_options d \<and>
     kwargs d1 = kwargs d \<and> attrs d1 = attrs d"
  by (auto simp: fit_backend_def split: sum.splits option.splits)

lemma fit_backend_handle:
  "fit_backend E d X y = (d1, r) \<Longrightarrow> backend_handle d \<noteq> None \<Longrightarrow> backend_handle d1 \<noteq> None"
  by (auto simp: fit_backend_def split: sum.splits option.splits)

lemma fit_backend_success_handle:
  "fit_backend E d X y = (d1, Inr u) \<Longrightarrow> backend_handle d1 \<noteq> None"
  by (auto simp: fit_backend_def split: sum.splits option.splits)


lemma fit_keeps_invariants:
  assumes "threshold d \<noteq> None \<longleftrightarrow> is_fitted d"
    and "is_fitted d \<longrightarrow> backend_handle d \<noteq> None"
  shows "(threshold (fst (fit E d X y)) \<noteq> None \<longleftrightarrow> is_fitted (fst (fit E d X y))) \<and>
         (is_fitted (fst (fit E d X y)) \<longrightarrow> backend_handle (fst (fit E d X y)) \<noteq> None) \<and>
         contamination (fst (fit E d X y)) = contamination d"
proof -
  obtain d1 r1 where fb: "fit_backend E (set_seed d) X y = (d1, r1)"
    by (cases "fit_backend E (set_seed d) X y") auto
  from fit_backend_keeps [OF fb] have k:
    "contamination d1 = contamination d" "threshold d1 = threshold d"
    "is_fitted d1 = is_fitted d"
    by (simp_all add: set_seed_def)
  from fit_backend_handle [OF fb] have h: "backend_handle d \<noteq> None \<Longrightarrow> backend_handle d1 \<noteq> None"
    by (simp add: set_seed_def)
  show ?thesis
  proof (cases r1)
    case (Inl e)
    with fb have "fst (fit E d X y) = d1" by (simp add: fit_def)
    with k h assms show ?thesis by auto
  next
    case (Inr u)
    with fb have "fit_backend E (set_seed d) X y = (d1, Inr u)" by simp
    then have s: "backend_handle d1 \<noteq> None"
      by (rule fit_backend_success_handle)
    from Inr fb have "fst (fit E d X y) = d1 \<or>
        (\<exists>t. fst (fit E d X y) = d1\<lparr>threshold := Some t, is_fitted := True\<rparr>)"
      by (auto simp: fit_def split: sum.splits)
    with k s assms show ?thesis by auto
  qed
qed

lemma init_params_layers:
  assumes "backend_options d = PDict bo"
  shows "\<exists>ip. init_params d = Inr ip \<and>
           (\<forall>k. ip k =
              (case bo k of
                 Some v \<Rightarrow> Some v
               | None \<Rightarrow>
                   apply_mapping d (param_mapping (klass d))
                     ((kwargs d)(''backend_options'' := None)) k))"
  using assms by (simp add: init_params_def map_add_def)




lemma sublist_join: "n \<in> set names \<Longrightarrow> sublist n (join sep names)"
proof (induction sep names rule: join.induct)
  case (1 sep)
  then show ?case by simp
next
  case (2 sep x)
  then show ?case by simp
next
  case (3 sep x y ys)
  show ?case
  proof (cases "n = x")
    case True
    then show ?thesis by (simp add: sublist_append)
  next
    case False
    with 3 have "sublist n (join sep (y # ys))" by simp
    then obtain ps ss where "join sep (y # ys) = ps @ n @ ss"
      by (auto simp: sublist_def)
    then have "join sep (x # y # ys) = (x @ sep @ ps) @ n @ ss" by simp
    then show ?thesis unfolding sublist_def by blast
  qed
qed

lemma sublist_sq: "sublist n (sq n)"
  unfolding sq_def by (metis append_Cons append_Nil sublist_appendI)

lemma sublist_repr_list:
  assumes "n \<in> set names"
  shows "sublist n (repr_list names)"
proof -
  from assms have "sq n \<in> set (map sq names)" by simp
  then have "sublist (sq n) (join '', '' (map sq names))" by (rule sublist_join)
  with sublist_sq have "sublist n (join '', '' (map sq names))"
    using sublist_order.order_trans by blast
  then show ?thesis
    unfolding repr_list_def by (meson sublist_appendI sublist_order.order_trans sublist_append)
qed

subsection \<open>Constructor arguments of the backend\<close>

text \<open>
  C1. The claim: in \<^verbatim>\<open>_fit_backend\<close> the backend options override the keyword
  arguments (\<^verbatim>\<open>self.kwargs\<close>), which override the mapped attribute values. The
  code applies the mapping after copying the keyword arguments (\<open>init_params_layers\<close>
  gives the order it implements: backend options, then mapped values, then keyword
  arguments). Evaluated on \<open>toy_trees\<close>, whose attribute \<^verbatim>\<open>n_trees = 10\<close> is
  mapped to \<^verbatim>\<open>n_estimators\<close> and whose keyword arguments hold
  \<^verbatim>\<open>n_estimators = 50\<close>: the constructor of the backend receives
  \<^verbatim>\<open>n_estimators = 10\<close>, the mapped value, not the keyword argument.
\<close>

theorem C1_mapped_value_replaces_kwarg:
  "kwargs toy_trees ''n_estimators'' = Some (PInt 50) \<and>
   getattr toy_trees ''n_trees'' = Some (PInt 10) \<and>
   param_mapping (klass toy_trees) = [(''n_trees'', ''n_estimators'')] \<and>
   backend_options toy_trees = PDict Map.empty \<and>
   init_params toy_trees = Inr [''n_estimators'' \<mapsto> PInt 10] \<and>
   snd (fit_backend toy_env toy_trees [[1, 2], [3, 5]] None) = Inr () \<and>
   map_option bk_params (backend_handle (fst (fit_backend toy_env toy_trees [[1, 2], [3, 5]] None)))
     = Some [''n_estimators'' \<mapsto> PInt 10]"
proof -
  have f: "klass toy_trees = TreesAdapter" "kwargs toy_trees = [''n_estimators'' \<mapsto> PInt 50]"
    "backend_options toy_trees = PDict Map.empty" "attrs toy_trees = [''n_trees'' \<mapsto> PInt 10]"
    by (simp_all add: toy_trees_def BaseSklearnAdapter_init_def)
  have g: "getattr toy_trees ''n_trees'' = Some (PInt 10)"
    by (simp add: getattr_def f)
  have fb: "fit_backend toy_env toy_trees [[1, 2], [3, 5]] None =
      (toy_trees\<lparr>backend_handle := Some \<lparr> bk_type = ''<class Toy>'',
          bk_params = [''n_estimators'' \<mapsto> PInt 10],
          score_samples = None, decision_function = Some (toy_scorer 2) \<rparr>\<rparr>, Inr ())"
    by (simp add: fit_backend_def toy_validate f TreesAdapter_def toy_trees_init_params
        toy_backend_class_def numeral_2_eq_2)
  show ?thesis
    by (simp add: f g TreesAdapter_def toy_trees_init_params fb)
qed

subsection \<open>Loading\<close>

text \<open>
  C2. The claim: if \<^verbatim>\<open>_load_backend\<close> raises during \<^verbatim>\<open>load\<close>, the
  fitted flag of the instance is not true afterwards. \<^verbatim>\<open>load\<close> assigns the
  flag after \<^verbatim>\<open>_load_backend\<close>, but the attributes restore before it has
  already written the \<^verbatim>\<open>_is_fitted\<close> that \<^verbatim>\<open>save\<close> pickled with
  the rest of \<^verbatim>\<open>__dict__\<close>. Evaluated on a fresh, unfitted detector and an
  archive whose attributes were saved from a fitted detector and whose
  \<^verbatim>\<open>backend/model.joblib\<close> is missing: \<^verbatim>\<open>_load_backend\<close> raises
  \<open>FileNotFoundError\<close>, \<^verbatim>\<open>load\<close> returns with it, and the instance is
  left with a true fitted flag and no backend handle.
\<close>

theorem C2_failed_load_leaves_fitted_flag:
  "\<not> is_fitted toy_fresh \<and>
   attributes_pkl (the (truncated_fs ''m.zip'')) = Some (state_of toy_fitted) \<and>
   model_joblib (the (truncated_fs ''m.zip'')) = None \<and>
   snd (load_backend (update_dict toy_fresh (state_of toy_fitted)) None) = Inl FileNotFoundError \<and>
   snd (load truncated_fs toy_fresh ''m.zip'') = Inl FileNotFoundError \<and>
   is_fitted (fst (load truncated_fs toy_fresh ''m.zip'')) \<and>
   backend_handle (fst (load truncated_fs toy_fresh ''m.zip'')) = None"
  by (simp add: load_def load_backend_def unpack_archive_def probe_path_def truncated_fs_def
      endswith_m_zip toy_fresh_fields update_dict_def state_of_def toy_fitted_fields)

subsection \<open>Saving and loading back\<close>




subsection \<open>Invariants of the detector state\<close>

text \<open>
  C4 (amended). In every state that a detector constructed with contamination \<open>c\<close>
  reaches through \<^verbatim>\<open>fit\<close> (returning or raising),
  \<^verbatim>\<open>predict_score\<close>, \<^verbatim>\<open>predict\<close> and \<^verbatim>\<open>save\<close>: the
  threshold is non-null iff the fitted flag is true; a true fitted flag implies a non-null
  backend handle; and the contamination is \<open>c\<close>.
\<close>

theorem C4_invariants_without_load:
  assumes "reachable E (BaseSklearnAdapter_init cls own c kw) d"
  shows "(threshold d \<noteq> None \<longleftrightarrow> is_fitted d) \<and>
         (is_fitted d \<longrightarrow> backend_handle d \<noteq> None) \<and>
         contamination d = c"
  using assms
proof (induction rule: reachable.induct)
  case constructed
  show ?case by (simp add: BaseSklearnAdapter_init_def)
next
  case (after_fit d X y)
  with fit_keeps_invariants [of d E X y] show ?case by simp
qed

theorem C4_invariants_without_load_witness:
  "reachable toy_env (BaseSklearnAdapter_init ToyAdapter Map.empty (PFloat (1 / 2)) Map.empty)
     toy_fitted \<and>
   threshold toy_fitted = Some (11 / 2) \<and> is_fitted toy_fitted \<and>
   backend_handle toy_fitted \<noteq> None \<and> contamination toy_fitted = PFloat (1 / 2)"
proof -
  have "reachable toy_env toy_fresh (fst (fit toy_env toy_fresh [[1, 2], [3, 5]] None))"
    by (rule reachable.after_fit) (rule reachable.constructed)
  then have r: "reachable toy_env
      (BaseSklearnAdapter_init ToyAdapter Map.empty (PFloat (1 / 2)) Map.empty) toy_fitted"
    by (simp add: toy_fitted_def toy_fresh_def)
  from C4_invariants_without_load [OF r] r show ?thesis
    by (simp add: toy_fitted_fields)
qed

text \<open>
  The claim as stated fails in two places. A \<^verbatim>\<open>fit\<close> whose backend rejects
  its parameters raises after the backend object was stored: the handle is non-null while
  the fitted flag is false. And \<^verbatim>\<open>load\<close> replaces the contamination given at
  construction by the archive's; loading the archive of \<open>toy_two\<close>, whose
  \<^verbatim>\<open>fit\<close> had raised, even leaves a fitted detector without a threshold.
\<close>

theorem C4_counterexample:
  "reachable toy_env toy_zero (fst (fit toy_env toy_zero [[1, 2], [3, 5]] None)) \<and>
   snd (fit toy_env toy_zero [[1, 2], [3, 5]] None) =
     Inl (ValueError ''n_estimators must be positive'') \<and>
   backend_handle (fst (fit toy_env toy_zero [[1, 2], [3, 5]] None)) \<noteq> None \<and>
   \<not> is_fitted (fst (fit toy_env toy_zero [[1, 2], [3, 5]] None)) \<and>
   contamination toy_fresh = PFloat (1 / 2) \<and>
   load toy_saved_fs toy_fresh ''model.zip'' = (toy_reloaded, Inr Self) \<and>
   contamination toy_reloaded = PFloat 2 \<and>
   is_fitted toy_reloaded \<and> threshold toy_reloaded = None"
proof -
  have r: "reachable toy_env toy_zero (fst (fit toy_env toy_zero [[1, 2], [3, 5]] None))"
    by (rule reachable.after_fit) (rule reachable.constructed)
  have z: "is_fitted toy_zero = False"
    by (simp add: toy_zero_def BaseSklearnAdapter_init_def)
  have l: "load toy_saved_fs toy_fresh ''model.zip'' = (toy_reloaded, Inr Self)"
    by (simp add: toy_reloaded_def toy_reload)
  show ?thesis
    using r l by (simp add: toy_zero_fit z toy_fresh_fields toy_reloaded_fields)
qed

subsection \<open>Fitting\<close>



subsection \<open>Prediction\<close>

text \<open>
  C6 (amended). On a detector whose fitted flag is false, \<^verbatim>\<open>predict\<close> raises
  \<open>ModelNotFittedError\<close> for every input and every threshold argument. On a fitted
  detector on which \<^verbatim>\<open>predict_score\<close> returns scores for the input,
  \<^verbatim>\<open>predict\<close> raises a \<open>ValueError\<close> iff both the threshold argument and
  the fitted threshold are null.
\<close>

theorem C6_predict_errors:
  "(\<not> is_fitted d \<longrightarrow>
      predict E d X thr = Inl (ModelNotFittedError ''Model is not fitted. Call fit() first.'')) \<and>
   (is_fitted d \<and> predict_score E d X = Inr scores \<longrightarrow>
      ((\<exists>msg. predict E d X thr = Inl (ValueError msg)) \<longleftrightarrow> (thr = None \<and> threshold d = None)))"
  by (auto simp: predict_def split: option.splits)

theorem C6_predict_errors_witness:
  "\<not> is_fitted toy_fresh \<and>
   predict toy_env toy_fresh [[1, 2], [3, 5]] (Some 0) =
     Inl (ModelNotFittedError ''Model is not fitted. Call fit() first.'') \<and>
   is_fitted toy_fitted \<and>
   predict_score toy_env toy_fitted [[1, 2], [3, 5]] = Inr [3, 8] \<and>
   \<not> (\<exists>msg. predict toy_env toy_fitted [[1, 2], [3, 5]] None = Inl (ValueError msg))"
proof -
  have a: "\<not> is_fitted toy_fresh" by (simp add: toy_fresh_fields)
  have b: "is_fitted toy_fitted" by (simp add: toy_fitted_fields)
  have c: "predict_score toy_env toy_fitted [[1, 2], [3, 5]] = Inr [3, 8]"
    by (simp add: toy_predict_score toy_fitted_fields)
  have t: "threshold toy_fitted \<noteq> None" by (simp add: toy_fitted_fields)
  from C6_predict_errors [where d = toy_fresh and E = toy_env and X = "[[1, 2], [3, 5]]"
      and thr = "Some 0"] a
  have 1: "predict toy_env toy_fresh [[1, 2], [3, 5]] (Some 0) =
     Inl (ModelNotFittedError ''Model is not fitted. Call fit() first.'')" by blast
  from C6_predict_errors [where d = toy_fitted and E = toy_env and X = "[[1, 2], [3, 5]]"
      and scores = "[3, 8]" and thr = None] b c t
  have 2: "\<not> (\<exists>msg. predict toy_env toy_fitted [[1, 2], [3, 5]] None = Inl (ValueError msg))"
    by blast
  from a b c 1 2 show ?thesis by blast
qed

text \<open>
  The claim as stated (on a fitted detector, for every input) fails in both directions
  when \<^verbatim>\<open>predict_score\<close> raises: a fitted detector with a threshold raises the
  backend's \<open>ValueError\<close> on an input with the wrong number of features; a fitted
  detector without any threshold (\<open>toy_reloaded\<close>, loaded from an archive) raises
  \<open>DataFormatError\<close>, not \<open>ValueError\<close>, on an input that fails validation.
\<close>

theorem C6_counterexample:
  "is_fitted toy_fitted \<and> threshold toy_fitted = Some (11 / 2) \<and>
   predict toy_env toy_fitted [[1]] None =
     Inl (ValueError ''X has a different number of features than the fitted estimator'') \<and>
   is_fitted toy_reloaded \<and> threshold toy_reloaded = None \<and>
   predict toy_env toy_reloaded [] None = Inl DataFormatError"
  by (simp add: predict_def predict_score_def backend_model_def toy_validate toy_fitted_fields
      toy_reloaded_fields toy_model_def toy_scorer_def)

text \<open>
  C7 (amended). On a fitted detector, for an input on which \<^verbatim>\<open>predict_score\<close>
  returns scores and an available threshold \<open>t\<close> (the argument, or the fitted
  threshold when the argument is null), \<^verbatim>\<open>predict\<close> returns one label per
  score, each 0 or 1, the \<open>i\<close>-th being 1 iff the \<open>i\<close>-th score is strictly
  greater than \<open>t\<close>; the labels are as many as the samples of the validated input
  whenever the scores are.
\<close>

theorem C7_predict_labels:
  assumes "is_fitted d"
    and "predict_score E d X = Inr scores"
    and "thr = Some t \<or> (thr = None \<and> threshold d = Some t)"
  shows "\<exists>labels. predict E d X thr = Inr labels \<and>
           length labels = length scores \<and>
           (\<forall>i < length labels.
              (labels ! i = 0 \<or> labels ! i = 1) \<and> (labels ! i = 1 \<longleftrightarrow> t < scores ! i)) \<and>
           (\<forall>X_valid. validate_input E X = Inr X_valid \<and> length scores = length X_valid \<longrightarrow>
              length labels = length X_valid)"
  using assms by (auto simp: predict_def)

theorem C7_predict_labels_witness:
  "is_fitted toy_fitted \<and>
   validate_input toy_env [[1, 2], [3, 5]] = Inr [[1, 2], [3, 5]] \<and>
   predict_score toy_env toy_fitted [[1, 2], [3, 5]] = Inr [3, 8] \<and>
   threshold toy_fitted = Some (11 / 2) \<and>
   predict toy_env toy_fitted [[1, 2], [3, 5]] None = Inr [0, 1] \<and>
   (\<exists>labels. predict toy_env toy_fitted [[1, 2], [3, 5]] None = Inr labels \<and>
      length labels = length [3, 8 :: real] \<and>
      (\<forall>i < length labels.
         (labels ! i = 0 \<or> labels ! i = 1) \<and>
         (labels ! i = 1 \<longleftrightarrow> 11 / 2 < [3, 8 :: real] ! i)) \<and>
      length labels = length [[1, 2], [3, 5 :: real]])"
proof -
  have a: "is_fitted toy_fitted" by (simp add: toy_fitted_fields)
  have b: "validate_input toy_env [[1, 2], [3, 5]] = Inr [[1, 2], [3, 5]]"
    by (simp add: toy_validate)
  have c: "predict_score toy_env toy_fitted [[1, 2], [3, 5]] = Inr [3, 8]"
    by (simp add: toy_predict_score toy_fitted_fields)
  have t: "threshold toy_fitted = Some (11 / 2)" by (simp add: toy_fitted_fields)
  then have e: "None = Some (11 / 2 :: real) \<or>
      (None = (None :: real option) \<and> threshold toy_fitted = Some (11 / 2))"
    by simp
  have p: "predict toy_env toy_fitted [[1, 2], [3, 5]] None = Inr [0, 1]"
    by (simp add: predict_def a c t)
  from C7_predict_labels [OF a c e] obtain labels where
    l: "predict toy_env toy_fitted [[1, 2], [3, 5]] None = Inr labels"
       "length labels = length [3, 8 :: real]"
       "\<forall>i < length labels.
         (labels ! i = 0 \<or> labels ! i = 1) \<and>
         (labels ! i = 1 \<longleftrightarrow> 11 / 2 < [3, 8 :: real] ! i)"
    by blast
  from l(2) have "length labels = length [[1, 2], [3, 5 :: real]]" by simp
  with l a b c t p show ?thesis by blast
qed

text \<open>
  The claim as stated (for every fitted detector and every input of \<open>n\<close> samples)
  fails where \<^verbatim>\<open>predict_score\<close> does not return \<open>n\<close> scores. On the
  valid one-sample input \<^verbatim>\<open>[[1]]\<close>, with a threshold given, the fitted backend
  raises on the wrong number of features and \<^verbatim>\<open>predict\<close> returns no labels
  at all. And with a backend that returns a single score for the whole input,
  \<^verbatim>\<open>predict\<close> returns one label for a valid input of two samples.
\<close>

theorem C7_counterexample:
  "is_fitted toy_fitted \<and>
   validate_input toy_env [[1]] = Inr [[1]] \<and>
   predict toy_env toy_fitted [[1]] (Some 0) =
     Inl (ValueError ''X has a different number of features than the fitted estimator'') \<and>
   is_fitted flat_fitted \<and> threshold flat_fitted = Some 11 \<and>
   validate_input toy_env [[1, 2], [3, 5]] = Inr [[1, 2], [3, 5]] \<and>
   predict_score toy_env flat_fitted [[1, 2], [3, 5]] = Inr [11] \<and>
   predict toy_env flat_fitted [[1, 2], [3, 5]] None = Inr [0]"
  by (simp add: predict_def predict_score_def backend_model_def toy_validate toy_fitted_fields
      flat_fitted_fields toy_model_def toy_scorer_def flat_scorer_def FlatAdapter_def
      ToyAdapter_def)

text \<open>
  C8. With a backend handle and a valid input, \<^verbatim>\<open>predict_score\<close> calls
  \<^verbatim>\<open>score_samples\<close> when the backend has it, otherwise
  \<^verbatim>\<open>decision_function\<close>, and raises \<open>ConfigError\<close> when it has neither;
  the scores returned are the negated native scores when \<^verbatim>\<open>_invert_score\<close> is
  set and the native scores when it is not.
\<close>

theorem C8_predict_score_dispatch:
  assumes "validate_input E X = Inr X_valid"
    and "backend_handle d = Some b"
  shows "(\<forall>f. score_samples b = Some f \<longrightarrow>
            predict_score E d X =
              (case f X_valid of
                 Inl e \<Rightarrow> Inl e
               | Inr native \<Rightarrow>
                   Inr (if invert_score (klass d) then map uminus native else native))) \<and>
         (\<forall>g. score_samples b = None \<and> decision_function b = Some g \<longrightarrow>
            predict_score E d X =
              (case g X_valid of
                 Inl e \<Rightarrow> Inl e
               | Inr native \<Rightarrow>
                   Inr (if invert_score (klass d) then map uminus native else native))) \<and>
         (score_samples b = None \<and> decision_function b = None \<longrightarrow>
            predict_score E d X =
              Inl (ConfigError
                (''Backend '' @ bk_type b @
                 '' has neither 'score_samples' nor 'decision_function'.'')))"
  using assms by (auto simp: predict_score_def backend_model_def split: sum.splits)

theorem C8_predict_score_dispatch_witness:
  "validate_input toy_env [[1, 2], [3, 5]] = Inr [[1, 2], [3, 5]] \<and>
   backend_handle toy_fitted = Some toy_model \<and>
   score_samples toy_model = None \<and> decision_function toy_model = Some (toy_scorer 2) \<and>
   toy_scorer 2 [[1, 2], [3, 5]] = Inr [- 3, - 8] \<and> invert_score (klass toy_fitted) \<and>
   predict_score toy_env toy_fitted [[1, 2], [3, 5]] = Inr [3, 8]"
proof -
  have a: "validate_input toy_env [[1, 2], [3, 5]] = Inr [[1, 2], [3, 5]]"
    by (simp add: toy_validate)
  have b: "backend_handle toy_fitted = Some toy_model" by (simp add: toy_fitted_fields)
  have c: "score_samples toy_model = None \<and> decision_function toy_model = Some (toy_scorer 2)"
    by (simp add: toy_model_def)
  have i: "invert_score (klass toy_fitted)" by (simp add: toy_fitted_fields ToyAdapter_def)
  from C8_predict_score_dispatch [OF a b] c
  have "predict_score toy_env toy_fitted [[1, 2], [3, 5]] =
          (case toy_scorer 2 [[1, 2], [3, 5]] of
             Inl e \<Rightarrow> Inl e
           | Inr native \<Rightarrow>
               Inr (if invert_score (klass toy_fitted) then map uminus native else native))"
    by blast
  with a b c i show ?thesis by (simp add: toy_scores)
qed

subsection \<open>The factory\<close>

text \<open>
  C9. For a name that is not a key of the registry, \<^verbatim>\<open>get_detector\<close> raises
  a \<open>ConfigError\<close> whose message contains every registered name. For a registered
  name whose module imports and holds the class \<^verbatim>\<open>name + "Adapter"\<close>, it
  returns what calling that class with the given keyword arguments returns.
\<close>

theorem C9_get_detector:
  "(name \<notin> fst ` set registry \<longrightarrow>
      (\<exists>msg. get_detector registry import_module name kw = Inl (ConfigError msg) \<and>
             (\<forall>n \<in> fst ` set registry. sublist n msg))) \<and>
   (\<forall>module_path imported model_class.
      map_of registry name = Some module_path \<and>
      import_module module_path = Inr imported \<and>
      imported (name @ ''Adapter'') = Some model_class \<longrightarrow>
      get_detector registry import_module name kw = model_class kw)"
proof -
  have "\<exists>msg. get_detector registry import_module name kw = Inl (ConfigError msg) \<and>
             (\<forall>n \<in> fst ` set registry. sublist n msg)"
    if "name \<notin> fst ` set registry"
  proof -
    from that have m: "map_of registry name = None" by (simp add: map_of_eq_None_iff)
    let ?msg = "''Unknown algorithm: '' @ sq name @ ''. Available algorithms: '' @
             repr_list (map fst registry)"
    have g: "get_detector registry import_module name kw = Inl (ConfigError ?msg)"
      by (simp add: get_detector_def m)
    have "sublist n ?msg" if "n \<in> fst ` set registry" for n
    proof -
      from that have "sublist n (repr_list (map fst registry))"
        by (intro sublist_repr_list) simp
      then obtain ps ss where "repr_list (map fst registry) = ps @ n @ ss"
        by (auto simp: sublist_def)
      then have "?msg = (''Unknown algorithm: '' @ sq name @ ''. Available algorithms: '' @ ps)
                         @ n @ ss"
        by simp
      then show ?thesis unfolding sublist_def by blast
    qed
    with g show ?thesis by blast
  qed
  moreover have "get_detector registry import_module name kw = model_class kw"
    if "map_of registry name = Some module_path"
      "import_module module_path = Inr imported"
      "imported (name @ ''Adapter'') = Some model_class"
    for module_path imported model_class
    using that by (simp add: get_detector_def)
  ultimately show ?thesis by blast
qed

theorem C9_get_detector_witness:
  "''LOF'' \<notin> fst ` set REGISTRY \<and>
   get_detector REGISTRY toy_import ''LOF'' Map.empty =
     Inl (ConfigError
       (''Unknown algorithm: '' @ sq ''LOF'' @ ''. Available algorithms: ['' @
        sq ''IsolationForest'' @ '']'')) \<and>
   map_of REGISTRY ''IsolationForest'' = Some ''omniad.algos.tabular.iforest'' \<and>
   toy_import ''omniad.algos.tabular.iforest'' = Inr (iforest_module toy_backend_class) \<and>
   iforest_module toy_backend_class (''IsolationForest'' @ ''Adapter'') =
     Some (IsolationForestAdapter_init toy_backend_class) \<and>
   get_detector REGISTRY toy_import ''IsolationForest'' [''contamination'' \<mapsto> PFloat (1 / 10)] =
     IsolationForestAdapter_init toy_backend_class [''contamination'' \<mapsto> PFloat (1 / 10)]"
proof -
  have a: "''LOF'' \<notin> fst ` set REGISTRY" by (simp add: REGISTRY_def)
  have b: "map_of REGISTRY ''IsolationForest'' = Some ''omniad.algos.tabular.iforest''"
    by (simp add: REGISTRY_def)
  have c: "toy_import ''omniad.algos.tabular.iforest'' = Inr (iforest_module toy_backend_class)"
    by (simp add: toy_import_def)
  have d: "iforest_module toy_backend_class (''IsolationForest'' @ ''Adapter'') =
     Some (IsolationForestAdapter_init toy_backend_class)"
    by (simp add: iforest_module_def)
  have e: "get_detector REGISTRY toy_import ''LOF'' Map.empty =
     Inl (ConfigError
       (''Unknown algorithm: '' @ sq ''LOF'' @ ''. Available algorithms: ['' @
        sq ''IsolationForest'' @ '']''))"
    by (simp add: get_detector_def REGISTRY_def repr_list_def)
  from C9_get_detector [of "''IsolationForest''" REGISTRY toy_import
      "[''contamination'' \<mapsto> PFloat (1 / 10)]"] b c d
  have "get_detector REGISTRY toy_import ''IsolationForest'' [''contamination'' \<mapsto> PFloat (1 / 10)] =
     IsolationForestAdapter_init toy_backend_class [''contamination'' \<mapsto> PFloat (1 / 10)]"
    by blast
  with a b c d e show ?thesis by blast
qed

subsection \<open>Saving an unfitted detector\<close>

text \<open>
  C10. On a detector without a backend handle, \<^verbatim>\<open>save\<close> raises
  \<open>ModelNotFittedError\<close> and the file system is unchanged: no archive is written.
\<close>

theorem C10_save_unfitted:
  assumes "backend_handle d = None"
  shows "save fs d filepath =
           (fs, Inl (ModelNotFittedError ''The backend model is not initialized or fitted.''))"
  using assms by (simp add: save_def save_backend_def backend_model_def)

theorem C10_save_unfitted_witness:
  "backend_handle toy_fresh = None \<and>
   save Map.empty toy_fresh ''model.zip'' =
     (Map.empty, Inl (ModelNotFittedError ''The backend model is not initialized or fitted.''))"
proof -
  have a: "backend_handle toy_fresh = None" by (simp add: toy_fresh_fields)
  from C10_save_unfitted [OF a, of Map.empty "''model.zip''"] a show ?thesis by simp
qed

end
